theory Spec2Isabelle
  imports Complex_Main
begin

section \<open>Values, vectors and failures\<close>

text \<open>
  The two scripts \<^verbatim>\<open>circuit.py\<close> and \<^verbatim>\<open>circuitBat.py\<close> describe components whose
  methods read a name-keyed vector \<^verbatim>\<open>inputs\<close> and write a name-keyed vector
  \<^verbatim>\<open>outputs\<close> (or \<^verbatim>\<open>residuals\<close>, or the Jacobian \<^verbatim>\<open>J\<close>). A vector is a
  partial map from names to numbers. Numbers are mathematical reals: rounding and
  overflow of the machine's doubles are outside this development. A division whose
  divisor is zero leaves the reals (numpy yields \<^verbatim>\<open>inf\<close> or \<^verbatim>\<open>nan\<close>, plain Python
  raises), so it is a failure of the model.
\<close>

datatype error =
    NameError string
  | KeyError string
  | ZeroDivisionError
  | NonFinite

type_synonym vec = "string \<rightharpoonup> real"

type_synonym jac = "(string \<times> string) \<rightharpoonup> real"

definition bind_err :: "error + 'a \<Rightarrow> ('a \<Rightarrow> error + 'b) \<Rightarrow> error + 'b" where
  "bind_err m f = (case m of Inl e \<Rightarrow> Inl e | Inr v \<Rightarrow> f v)"

text \<open>\<^verbatim>\<open>d[k]\<close>: a missing key raises.\<close>

definition getitem :: "vec \<Rightarrow> string \<Rightarrow> error + real" where
  "getitem d k = (case d k of None \<Rightarrow> Inl (KeyError k) | Some v \<Rightarrow> Inr v)"

text \<open>
  A global name is looked up in the module's namespace when the expression is evaluated
  (\<^verbatim>\<open>np\<close> is not a builtin, so the builtins do not supply it).
\<close>

definition load_global :: "string list \<Rightarrow> string \<Rightarrow> error + unit" where
  "load_global globals name = (if name \<in> set globals then Inr () else Inl (NameError name))"

text \<open>Division of a numpy array by a float, and of two plain Python floats.\<close>

definition np_div :: "real \<Rightarrow> real \<Rightarrow> error + real" where
  "np_div x y = (if y = 0 then Inl NonFinite else Inr (x / y))"

definition py_div :: "real \<Rightarrow> real \<Rightarrow> error + real" where
  "py_div x y = (if y = 0 then Inl ZeroDivisionError else Inr (x / y))"

text \<open>\<^verbatim>\<open>range(n)\<close> for a Python int: empty when \<^verbatim>\<open>n\<close> is not positive.\<close>

definition py_range :: "int \<Rightarrow> nat list" where
  "py_range n = [0..<nat n]"

text \<open>The decimal text of a natural number, as an f-string prints it.\<close>

fun str_nat :: "nat \<Rightarrow> string" where
  "str_nat n =
     (if n < 10 then [''0123456789'' ! n]
      else str_nat (n div 10) @ [''0123456789'' ! (n mod 10)])"

declare str_nat.simps [simp del]

section \<open>The modules' global names\<close>

text \<open>
  The names bound at module level when the model runs. \<^verbatim>\<open>circuit.py\<close> imports only
  \<^verbatim>\<open>openmdao.api as om\<close>; \<^verbatim>\<open>circuitBat.py\<close> also imports \<^verbatim>\<open>numpy as np\<close>.
\<close>

definition circuit_globals :: "string list" where
  "circuit_globals =
     [''om'', ''Resistor'', ''Diode'', ''Node'', ''Circuit'', ''prob'', ''model'']"

definition circuitBat_globals :: "string list" where
  "circuitBat_globals =
     [''division'', ''print_function'', ''om'', ''np'', ''Resistor'', ''Diode'', ''Node'',
      ''Circuit'', ''p'', ''model'', ''bal'', ''newton'']"

section \<open>Resistor\<close>

text \<open>
  \<^verbatim>\<open>Resistor.compute\<close> is the same text in both files:
  \<^verbatim>\<open>deltaV = inputs['V_in'] - inputs['V_out']; outputs['I'] = deltaV / self.options['R']\<close>.
\<close>

definition Resistor_compute :: "real \<Rightarrow> vec \<Rightarrow> vec \<Rightarrow> error + vec" where
  "Resistor_compute R inputs outputs =
     bind_err (getitem inputs ''V_in'') (\<lambda>v_in.
     bind_err (getitem inputs ''V_out'') (\<lambda>v_out.
       let deltaV = v_in - v_out in
       bind_err (np_div deltaV R) (\<lambda>i.
         Inr (outputs(''I'' \<mapsto> i)))))"

text \<open>How a partial derivative is declared in \<^verbatim>\<open>setup\<close>.\<close>

datatype partials_method = fd | val real | analytic

record meta =
  m_inputs :: "string list"
  m_outputs :: "string list"
  m_partials :: "((string \<times> string) \<times> partials_method) list"

definition circuit_Resistor_setup :: "real \<Rightarrow> error + meta" where
  "circuit_Resistor_setup R =
     Inr \<lparr>m_inputs = [''V_in'', ''V_out''], m_outputs = [''I''],
          m_partials = [((''I'', ''V_in''), fd), ((''I'', ''V_out''), fd)]\<rparr>"

text \<open>
  In \<^verbatim>\<open>circuitBat.py\<close> the partials are constants assigned in \<^verbatim>\<open>setup\<close>:
  \<^verbatim>\<open>val=1/R\<close> and \<^verbatim>\<open>val=-1/R\<close>.
\<close>

definition circuitBat_Resistor_setup :: "real \<Rightarrow> error + meta" where
  "circuitBat_Resistor_setup R =
     bind_err (py_div 1 R) (\<lambda>d_in.
     bind_err (py_div (- 1) R) (\<lambda>d_out.
       Inr \<lparr>m_inputs = [''V_in'', ''V_out''], m_outputs = [''I''],
            m_partials = [((''I'', ''V_in''), val d_in), ((''I'', ''V_out''), val d_out)]\<rparr>))"

section \<open>Diode\<close>

definition Diode_default_Is :: real where
  "Diode_default_Is = 1 / 10 ^ 15"

definition Diode_default_Vt :: real where
  "Diode_default_Vt = 25875 / 1000000"

text \<open>
  \<^verbatim>\<open>Diode.compute\<close> is the same text in both files; what differs is the module it runs
  in. \<^verbatim>\<open>Is\<close> is evaluated, then the name \<^verbatim>\<open>np\<close>, then the argument of \<^verbatim>\<open>np.exp\<close>.
\<close>

definition Diode_compute :: "string list \<Rightarrow> real \<Rightarrow> real \<Rightarrow> vec \<Rightarrow> vec \<Rightarrow> error + vec" where
  "Diode_compute globals Is Vt inputs outputs =
     bind_err (getitem inputs ''V_in'') (\<lambda>v_in.
     bind_err (getitem inputs ''V_out'') (\<lambda>v_out.
       let deltaV = v_in - v_out in
       bind_err (load_global globals ''np'') (\<lambda>_.
       bind_err (np_div deltaV Vt) (\<lambda>q.
         Inr (outputs(''I'' \<mapsto> Is * (exp q - 1)))))))"

text \<open>\<^verbatim>\<open>Diode.compute_partials\<close> exists in \<^verbatim>\<open>circuitBat.py\<close> only.\<close>

definition Diode_compute_partials :: "string list \<Rightarrow> real \<Rightarrow> real \<Rightarrow> vec \<Rightarrow> jac \<Rightarrow> error + jac" where
  "Diode_compute_partials globals Is Vt inputs J =
     bind_err (getitem inputs ''V_in'') (\<lambda>v_in.
     bind_err (getitem inputs ''V_out'') (\<lambda>v_out.
       let deltaV = v_in - v_out in
       bind_err (load_global globals ''np'') (\<lambda>_.
       bind_err (np_div deltaV Vt) (\<lambda>q.
         let I = Is * exp q in
         bind_err (np_div I Vt) (\<lambda>d_in.
         bind_err (np_div (- I) Vt) (\<lambda>d_out.
           Inr (J((''I'', ''V_in'') \<mapsto> d_in, (''I'', ''V_out'') \<mapsto> d_out))))))))"

definition circuit_Diode_setup :: "error + meta" where
  "circuit_Diode_setup =
     Inr \<lparr>m_inputs = [''V_in'', ''V_out''], m_outputs = [''I''],
          m_partials = [((''I'', ''V_in''), fd), ((''I'', ''V_out''), fd)]\<rparr>"

definition circuitBat_Diode_setup :: "error + meta" where
  "circuitBat_Diode_setup =
     Inr \<lparr>m_inputs = [''V_in'', ''V_out''], m_outputs = [''I''],
          m_partials = [((''I'', ''V_in''), analytic), ((''I'', ''V_out''), analytic)]\<rparr>"

section \<open>Node\<close>

text \<open>
  \<^verbatim>\<open>Node.setup\<close> (the same in both files) declares the state \<^verbatim>\<open>V\<close> and one input
  per connection, named \<^verbatim>\<open>I_in:0, I_in:1, ...\<close> and \<^verbatim>\<open>I_out:0, I_out:1, ...\<close>.
\<close>

definition Node_setup :: "int \<Rightarrow> int \<Rightarrow> error + meta" where
  "Node_setup n_in n_out =
     Inr \<lparr>m_inputs = map (\<lambda>i. ''I_in:'' @ str_nat i) (py_range n_in)
                     @ map (\<lambda>i. ''I_out:'' @ str_nat i) (py_range n_out),
          m_outputs = [''V''],
          m_partials = [((''V'', ''I*''), fd)]\<rparr>"

text \<open>
  The two loops of \<^verbatim>\<open>Node.apply_nonlinear\<close>, over the connection indices, with the
  running value of \<^verbatim>\<open>residuals['V']\<close>: \<^verbatim>\<open>+=\<close> and \<^verbatim>\<open>-=\<close>.
\<close>

fun add_currents :: "vec \<Rightarrow> string \<Rightarrow> nat list \<Rightarrow> real \<Rightarrow> error + real" where
  "add_currents inputs prefix [] r = Inr r"
| "add_currents inputs prefix (i # rest) r =
     (case getitem inputs (prefix @ str_nat i) of
        Inl e \<Rightarrow> Inl e
      | Inr c \<Rightarrow> add_currents inputs prefix rest (r + c))"

fun sub_currents :: "vec \<Rightarrow> string \<Rightarrow> nat list \<Rightarrow> real \<Rightarrow> error + real" where
  "sub_currents inputs prefix [] r = Inr r"
| "sub_currents inputs prefix (i # rest) r =
     (case getitem inputs (prefix @ str_nat i) of
        Inl e \<Rightarrow> Inl e
      | Inr c \<Rightarrow> sub_currents inputs prefix rest (r - c))"

text \<open>\<^verbatim>\<open>circuit.py\<close>: both loops add.\<close>

definition circuit_Node_apply_nonlinear ::
  "int \<Rightarrow> int \<Rightarrow> vec \<Rightarrow> vec \<Rightarrow> vec \<Rightarrow> error + vec" where
  "circuit_Node_apply_nonlinear n_in n_out inputs outputs residuals =
     bind_err (add_currents inputs ''I_in:'' (py_range n_in) 0) (\<lambda>r.
     bind_err (add_currents inputs ''I_out:'' (py_range n_out) r) (\<lambda>r.
       Inr (residuals(''V'' \<mapsto> r))))"

text \<open>\<^verbatim>\<open>circuitBat.py\<close>: the second loop subtracts.\<close>

definition circuitBat_Node_apply_nonlinear ::
  "int \<Rightarrow> int \<Rightarrow> vec \<Rightarrow> vec \<Rightarrow> vec \<Rightarrow> error + vec" where
  "circuitBat_Node_apply_nonlinear n_in n_out inputs outputs residuals =
     bind_err (add_currents inputs ''I_in:'' (py_range n_in) 0) (\<lambda>r.
     bind_err (sub_currents inputs ''I_out:'' (py_range n_out) r) (\<lambda>r.
       Inr (residuals(''V'' \<mapsto> r))))"

section \<open>Systems, groups and wiring\<close>

text \<open>
  A model is a tree of subsystems. A group records, in the order of the calls, the
  subsystems added with \<^verbatim>\<open>add_subsystem(name, comp, promotes_inputs=[(old, new), ...])\<close>
  and the pairs given to \<^verbatim>\<open>connect(source, targets)\<close>. The expression of the one
  \<^verbatim>\<open>ExecComp\<close>, \<^verbatim>\<open>'dV = V1 - V2'\<close>, is a difference of variables.
\<close>

datatype expr = Var string | Sub expr expr

datatype component =
    Node int int
  | Resistor real
  | Diode real real
  | IndepVarComp string real
  | BalanceComp "string list"
  | ExecComp string expr
  | Group "subsystem list" "(string \<times> string) list"
and subsystem = Subsystem string component "(string \<times> string) list"

definition empty_group :: component where
  "empty_group = Group [] []"

fun add_subsystem ::
  "string \<Rightarrow> component \<Rightarrow> (string \<times> string) list \<Rightarrow> component \<Rightarrow> component" where
  "add_subsystem name c promotes_inputs (Group subs conns) =
     Group (subs @ [Subsystem name c promotes_inputs]) conns"
| "add_subsystem name c promotes_inputs g = g"

fun connect :: "string \<Rightarrow> string list \<Rightarrow> component \<Rightarrow> component" where
  "connect src tgts (Group subs conns) = Group subs (conns @ map (Pair src) tgts)"
| "connect src tgts g = g"

text \<open>The statements of a setup, run in order.\<close>

definition statements :: "('a \<Rightarrow> 'a) list \<Rightarrow> 'a \<Rightarrow> 'a" where
  "statements ss g = fold (\<lambda>s. s) ss g"

text \<open>
  \<^verbatim>\<open>Circuit.setup\<close>, the same in both files. \<^verbatim>\<open>Node()\<close> and \<^verbatim>\<open>Diode()\<close> take
  the declared defaults.
\<close>

definition Circuit_setup :: component where
  "Circuit_setup = statements
     [add_subsystem ''n1'' (Node 1 2) [(''I_in:0'', ''I_in'')],
      add_subsystem ''n2'' (Node 1 1) [],
      add_subsystem ''R1'' (Resistor 100) [(''V_out'', ''Vg'')],
      add_subsystem ''R2'' (Resistor 10000) [],
      add_subsystem ''D1'' (Diode Diode_default_Is Diode_default_Vt) [(''V_out'', ''Vg'')],
      connect ''n1.V'' [''R1.V_in'', ''R2.V_in''],
      connect ''R1.I'' [''n1.I_out:0''],
      connect ''R2.I'' [''n1.I_out:1''],
      connect ''n2.V'' [''R2.V_out'', ''D1.V_in''],
      connect ''R2.I'' [''n2.I_in:0''],
      connect ''D1.I'' [''n2.I_out:0'']]
     empty_group"

text \<open>The model of \<^verbatim>\<open>circuit.py\<close>: a fixed current source.\<close>

definition circuit_model :: component where
  "circuit_model = statements
     [add_subsystem ''ground'' (IndepVarComp ''V'' 0) [],
      add_subsystem ''source'' (IndepVarComp ''I'' (1 / 10)) [],
      add_subsystem ''circuit'' Circuit_setup [],
      connect ''source.I'' [''circuit.I_in''],
      connect ''ground.V'' [''circuit.Vg'']]
     empty_group"

text \<open>
  The model of \<^verbatim>\<open>circuitBat.py\<close>: the source current is the state of a balance
  \<^verbatim>\<open>I\<close> whose two sides are the battery voltage and the voltage across the circuit.
\<close>

definition circuitBat_model :: component where
  "circuitBat_model = statements
     [add_subsystem ''ground'' (IndepVarComp ''V'' 0) [],
      add_subsystem ''batt'' (IndepVarComp ''V'' (15 / 10)) [],
      add_subsystem ''batt_balance'' (BalanceComp [''I'']) [],
      add_subsystem ''circuit'' Circuit_setup [],
      add_subsystem ''batt_deltaV'' (ExecComp ''dV'' (Sub (Var ''V1'') (Var ''V2''))) [],
      connect ''batt_balance.I'' [''circuit.I_in''],
      connect ''ground.V'' [''circuit.Vg'', ''batt_deltaV.V2''],
      connect ''circuit.n1.V'' [''batt_deltaV.V1''],
      connect ''batt.V'' [''batt_balance.rhs:I''],
      connect ''batt_deltaV.dV'' [''batt_balance.lhs:I'']]
     empty_group"

subsection \<open>Names of variables\<close>

text \<open>
  Inside a group a variable of a subsystem is named \<^verbatim>\<open>subsystem.variable\<close>, unless the
  subsystem promotes it under another name. The variables of a system are listed as
  pairs: the name by which the enclosing group knows the variable, and its full path.
\<close>

fun vars_expr :: "expr \<Rightarrow> string list" where
  "vars_expr (Var x) = [x]"
| "vars_expr (Sub a b) = vars_expr a @ vars_expr b"

definition promoted :: "(string \<times> string) list \<Rightarrow> string \<Rightarrow> string \<Rightarrow> string" where
  "promoted promotes name v =
     (case map_of promotes v of Some p \<Rightarrow> p | None \<Rightarrow> name @ ''.'' @ v)"

fun var_inputs :: "component \<Rightarrow> (string \<times> string) list"
  and sub_inputs :: "subsystem \<Rightarrow> (string \<times> string) list" where
  "var_inputs (Node n_in n_out) =
     map (\<lambda>v. (v, v)) (map (\<lambda>i. ''I_in:'' @ str_nat i) (py_range n_in)
                        @ map (\<lambda>i. ''I_out:'' @ str_nat i) (py_range n_out))"
| "var_inputs (Resistor R) = map (\<lambda>v. (v, v)) [''V_in'', ''V_out'']"
| "var_inputs (Diode Is Vt) = map (\<lambda>v. (v, v)) [''V_in'', ''V_out'']"
| "var_inputs (IndepVarComp name v) = []"
| "var_inputs (BalanceComp names) =
     map (\<lambda>v. (v, v)) (concat (map (\<lambda>n. [''lhs:'' @ n, ''rhs:'' @ n]) names))"
| "var_inputs (ExecComp out e) = map (\<lambda>v. (v, v)) (vars_expr e)"
| "var_inputs (Group subs conns) = concat (map sub_inputs subs)"
| "sub_inputs (Subsystem name c promotes) =
     map (\<lambda>(p, a). (promoted promotes name p, name @ ''.'' @ a)) (var_inputs c)"

fun var_outputs :: "component \<Rightarrow> (string \<times> string) list"
  and sub_outputs :: "subsystem \<Rightarrow> (string \<times> string) list" where
  "var_outputs (Node n_in n_out) = [(''V'', ''V'')]"
| "var_outputs (Resistor R) = [(''I'', ''I'')]"
| "var_outputs (Diode Is Vt) = [(''I'', ''I'')]"
| "var_outputs (IndepVarComp name v) = [(name, name)]"
| "var_outputs (BalanceComp names) = map (\<lambda>v. (v, v)) names"
| "var_outputs (ExecComp out e) = [(out, out)]"
| "var_outputs (Group subs conns) = concat (map sub_outputs subs)"
| "sub_outputs (Subsystem name c promotes) =
     map (\<lambda>(p, a). (name @ ''.'' @ p, name @ ''.'' @ a)) (var_outputs c)"

text \<open>
  Every connection of the tree, as (full path of the source, full path of the target):
  a name given to \<^verbatim>\<open>connect\<close> stands for every variable the group knows by it.
\<close>

definition resolve :: "(string \<times> string) list \<Rightarrow> string \<Rightarrow> string list" where
  "resolve vars n = map snd (filter (\<lambda>(p, a). p = n) vars)"

fun flat_connections :: "component \<Rightarrow> (string \<times> string) list"
  and sub_connections :: "subsystem \<Rightarrow> (string \<times> string) list" where
  "flat_connections (Group subs conns) =
     concat (map (\<lambda>(src, tgt).
        concat (map (\<lambda>s. map (Pair s) (resolve (concat (map sub_inputs subs)) tgt))
                    (resolve (concat (map sub_outputs subs)) src))) conns)
     @ concat (map sub_connections subs)"
| "flat_connections c = []"
| "sub_connections (Subsystem name c promotes) =
     map (\<lambda>(s, t). (name @ ''.'' @ s, name @ ''.'' @ t)) (flat_connections c)"

text \<open>The output that drives an input, if any.\<close>

definition source_of :: "component \<Rightarrow> string \<Rightarrow> string option" where
  "source_of model tgt = map_of (map (\<lambda>(s, t). (t, s)) (flat_connections model)) tgt"

fun path_name :: "string list \<Rightarrow> string" where
  "path_name [] = []"
| "path_name [n] = n"
| "path_name (n # ns) = n @ ''.'' @ path_name ns"

fun component_at :: "component \<Rightarrow> string list \<Rightarrow> component option"
  and subs_at :: "subsystem list \<Rightarrow> string \<Rightarrow> string list \<Rightarrow> component option" where
  "component_at c [] = Some c"
| "component_at (Group subs conns) (n # path) = subs_at subs n path"
| "component_at c (n # path) = None"
| "subs_at [] n path = None"
| "subs_at (Subsystem name c promotes # rest) n path =
     (if name = n then component_at c path else subs_at rest n path)"

section \<open>Evaluating a model on a state\<close>

text \<open>
  A state gives a value to outputs, by full path. The inputs of a system are read
  through the connections; an input that nothing drives has no value here (every input
  of the two models is driven).
\<close>

datatype module = Circuit_py | CircuitBat_py

definition globals_of :: "module \<Rightarrow> string list" where
  "globals_of m =
     (case m of Circuit_py \<Rightarrow> circuit_globals | CircuitBat_py \<Rightarrow> circuitBat_globals)"

definition Node_apply_nonlinear ::
  "module \<Rightarrow> int \<Rightarrow> int \<Rightarrow> vec \<Rightarrow> vec \<Rightarrow> vec \<Rightarrow> error + vec" where
  "Node_apply_nonlinear m =
     (case m of Circuit_py \<Rightarrow> circuit_Node_apply_nonlinear
              | CircuitBat_py \<Rightarrow> circuitBat_Node_apply_nonlinear)"

fun eval_expr :: "expr \<Rightarrow> vec \<Rightarrow> error + real" where
  "eval_expr (Var x) inputs = getitem inputs x"
| "eval_expr (Sub a b) inputs =
     (case eval_expr a inputs of
        Inl e \<Rightarrow> Inl e
      | Inr x \<Rightarrow> (case eval_expr b inputs of Inl e \<Rightarrow> Inl e | Inr y \<Rightarrow> Inr (x - y)))"

definition ExecComp_compute :: "string \<Rightarrow> expr \<Rightarrow> vec \<Rightarrow> vec \<Rightarrow> error + vec" where
  "ExecComp_compute out e inputs outputs =
     bind_err (eval_expr e inputs) (\<lambda>v. Inr (outputs(out \<mapsto> v)))"

definition IndepVarComp_compute :: "string \<Rightarrow> real \<Rightarrow> vec \<Rightarrow> vec \<Rightarrow> error + vec" where
  "IndepVarComp_compute name v inputs outputs = Inr (outputs(name \<mapsto> v))"

text \<open>
  The balance component belongs to the framework. Its residual for a balance \<^verbatim>\<open>n\<close> is
  computed from the inputs \<^verbatim>\<open>lhs:n\<close> and \<^verbatim>\<open>rhs:n\<close>; the law \<open>res\<close> that
  combines the two sides is a parameter.
\<close>

fun BalanceComp_apply_nonlinear ::
  "(real \<Rightarrow> real \<Rightarrow> real) \<Rightarrow> string list \<Rightarrow> vec \<Rightarrow> vec \<Rightarrow> vec \<Rightarrow> error + vec" where
  "BalanceComp_apply_nonlinear res [] inputs outputs residuals = Inr residuals"
| "BalanceComp_apply_nonlinear res (n # ns) inputs outputs residuals =
     (case getitem inputs (''lhs:'' @ n) of
        Inl e \<Rightarrow> Inl e
      | Inr lhs \<Rightarrow>
          (case getitem inputs (''rhs:'' @ n) of
             Inl e \<Rightarrow> Inl e
           | Inr rhs \<Rightarrow>
               BalanceComp_apply_nonlinear res ns inputs outputs
                 (residuals(n \<mapsto> res lhs rhs))))"

definition gather :: "component \<Rightarrow> vec \<Rightarrow> string list \<Rightarrow> vec" where
  "gather model st path v =
     (case source_of model (path_name (path @ [v])) of
        None \<Rightarrow> None
      | Some src \<Rightarrow> st src)"

definition own :: "vec \<Rightarrow> string list \<Rightarrow> vec" where
  "own st path v = st (path_name (path @ [v]))"

fun store :: "string list \<Rightarrow> vec \<Rightarrow> string list \<Rightarrow> vec \<Rightarrow> vec" where
  "store path outs [] st = st"
| "store path outs (v # vs) st = store path outs vs (st(path_name (path @ [v]) := outs v))"

text \<open>The method of an explicit component, and of an implicit one.\<close>

definition compute :: "module \<Rightarrow> component \<Rightarrow> vec \<Rightarrow> vec \<Rightarrow> (error + vec) option" where
  "compute m c inputs outputs =
     (case c of
        Resistor R \<Rightarrow> Some (Resistor_compute R inputs outputs)
      | Diode Is Vt \<Rightarrow> Some (Diode_compute (globals_of m) Is Vt inputs outputs)
      | IndepVarComp name v \<Rightarrow> Some (IndepVarComp_compute name v inputs outputs)
      | ExecComp out e \<Rightarrow> Some (ExecComp_compute out e inputs outputs)
      | _ \<Rightarrow> None)"

definition apply_nonlinear ::
  "module \<Rightarrow> (real \<Rightarrow> real \<Rightarrow> real) \<Rightarrow> component \<Rightarrow> vec \<Rightarrow> vec \<Rightarrow> vec
     \<Rightarrow> (error + vec) option" where
  "apply_nonlinear m res c inputs outputs residuals =
     (case c of
        Node n_in n_out \<Rightarrow> Some (Node_apply_nonlinear m n_in n_out inputs outputs residuals)
      | BalanceComp names \<Rightarrow>
          Some (BalanceComp_apply_nonlinear res names inputs outputs residuals)
      | _ \<Rightarrow> None)"

text \<open>
  One pass over the explicit components of a system, in the order of their
  declaration: each reads its inputs from the state and writes its outputs there. The
  states of the implicit components are left as they are.
\<close>

fun run_comp :: "module \<Rightarrow> component \<Rightarrow> string list \<Rightarrow> component \<Rightarrow> vec \<Rightarrow> error + vec"
  and run_subs :: "module \<Rightarrow> component \<Rightarrow> string list \<Rightarrow> subsystem list \<Rightarrow> vec \<Rightarrow> error + vec"
  where
  "run_comp m model path (Group subs cs) st = run_subs m model path subs st"
| "run_comp m model path c st =
     (case compute m c (gather model st path) (own st path) of
        None \<Rightarrow> Inr st
      | Some (Inl e) \<Rightarrow> Inl e
      | Some (Inr outs) \<Rightarrow> Inr (store path outs (map fst (var_outputs c)) st))"
| "run_subs m model path [] st = Inr st"
| "run_subs m model path (Subsystem name c promotes # rest) st =
     (case run_comp m model (path @ [name]) c st of
        Inl e \<Rightarrow> Inl e
      | Inr st' \<Rightarrow> run_subs m model path rest st')"

definition run_at :: "module \<Rightarrow> component \<Rightarrow> string list \<Rightarrow> vec \<Rightarrow> error + vec" where
  "run_at m model path st =
     (case component_at model path of
        None \<Rightarrow> Inl (KeyError (path_name path))
      | Some c \<Rightarrow> run_comp m model path c st)"

text \<open>The residual vector of the implicit component at a path.\<close>

definition residual_at ::
  "module \<Rightarrow> (real \<Rightarrow> real \<Rightarrow> real) \<Rightarrow> component \<Rightarrow> string list \<Rightarrow> vec \<Rightarrow> error + vec" where
  "residual_at m res model path st =
     (case component_at model path of
        None \<Rightarrow> Inl (KeyError (path_name path))
      | Some c \<Rightarrow>
          (case apply_nonlinear m res c (gather model st path) (own st path) Map.empty of
             None \<Rightarrow> Inl (KeyError (path_name path))
           | Some r \<Rightarrow> r))"

text \<open>The current written by a \<^verbatim>\<open>compute\<close>, read back from its result.\<close>

definition current_of :: "error + vec \<Rightarrow> real" where
  "current_of r =
     (case r of
        Inl e \<Rightarrow> 0
      | Inr outs \<Rightarrow> (case outs ''I'' of None \<Rightarrow> 0 | Some i \<Rightarrow> i))"

section \<open>Example states\<close>

text \<open>
  A state of the battery model before and after one pass over its explicit components:
  node voltages 1.5 and 0.7, source current 0.
\<close>

definition battery_initial_state :: vec where
  "battery_initial_state =
     [''circuit.n1.V'' \<mapsto> 15 / 10, ''circuit.n2.V'' \<mapsto> 7 / 10, ''batt_balance.I'' \<mapsto> 0]"

definition battery_state :: vec where
  "battery_state =
     battery_initial_state
       (''ground.V'' \<mapsto> 0, ''batt.V'' \<mapsto> 15 / 10,
        ''circuit.R1.I'' \<mapsto> 15 / 1000,
        ''circuit.R2.I'' \<mapsto> 8 / 100000,
        ''circuit.D1.I'' \<mapsto> Diode_default_Is * (exp ((7 / 10) / Diode_default_Vt) - 1),
        ''batt_deltaV.dV'' \<mapsto> 15 / 10)"

section \<open>Basic facts\<close>

lemma bind_err_Inl [simp]: "bind_err (Inl e) f = Inl e"
  by (simp add: bind_err_def)

lemma bind_err_Inr [simp]: "bind_err (Inr v) f = f v"
  by (simp add: bind_err_def)

lemma getitem_Some: "d k = Some v \<Longrightarrow> getitem d k = Inr v"
  by (simp add: getitem_def)

lemma getitem_None: "d k = None \<Longrightarrow> getitem d k = Inl (KeyError k)"
  by (simp add: getitem_def)

lemma np_unbound_in_circuit: "load_global circuit_globals ''np'' = Inl (NameError ''np'')"
  by (simp add: load_global_def circuit_globals_def)

lemma np_bound_in_circuitBat: "load_global circuitBat_globals ''np'' = Inr ()"
  by (simp add: load_global_def circuitBat_globals_def)

lemma py_range_simps: "py_range 1 = [0]" "py_range 2 = [0, 1]"
  by (simp_all add: py_range_def upt_rec)

lemma str_nat_digits: "str_nat 0 = ''0''" "str_nat 1 = ''1''" "str_nat (Suc 0) = ''1''"
  by (simp_all add: str_nat.simps)

lemma Diode_default_Vt_nonzero: "Diode_default_Vt \<noteq> 0"
  by (simp add: Diode_default_Vt_def)

text \<open>The inputs that the wiring attributes to a component are those its setup declares.\<close>

lemma setup_declares_inputs:
  "Node_setup n_in n_out = Inr mt \<Longrightarrow> map fst (var_inputs (Node n_in n_out)) = m_inputs mt"
  "circuit_Resistor_setup R = Inr mt \<Longrightarrow> map fst (var_inputs (Resistor R)) = m_inputs mt"
  "circuitBat_Resistor_setup R = Inr mt \<Longrightarrow> map fst (var_inputs (Resistor R)) = m_inputs mt"
  "circuit_Diode_setup = Inr mt \<Longrightarrow> map fst (var_inputs (Diode Is Vt)) = m_inputs mt"
  "circuitBat_Diode_setup = Inr mt \<Longrightarrow> map fst (var_inputs (Diode Is Vt)) = m_inputs mt"
  by (auto simp add: Node_setup_def circuit_Resistor_setup_def circuitBat_Resistor_setup_def
        circuit_Diode_setup_def circuitBat_Diode_setup_def py_div_def comp_def
        split: if_splits)

section \<open>Resistor\<close>

lemma Resistor_current:
  "R \<noteq> 0 \<Longrightarrow> inputs ''V_in'' = Some v_in \<Longrightarrow> inputs ''V_out'' = Some v_out \<Longrightarrow>
     current_of (Resistor_compute R inputs outputs) = (v_in - v_out) / R"
  by (simp add: Resistor_compute_def getitem_Some np_div_def current_of_def)

text \<open>
  Claim C2. For terminal voltages \<open>v_in\<close>, \<open>v_out\<close> and a resistance \<open>R > 0\<close>,
  \<^verbatim>\<open>Resistor.compute\<close> writes the current \<open>(v_in - v_out) / R\<close>; with \<open>R = 100\<close>
  and a voltage difference of 5 the current is 0.05.
\<close>

theorem Resistor_compute_ohm:
  "0 < R \<Longrightarrow> inputs ''V_in'' = Some v_in \<Longrightarrow> inputs ''V_out'' = Some v_out \<Longrightarrow>
     Resistor_compute R inputs outputs = Inr (outputs(''I'' \<mapsto> (v_in - v_out) / R))
     \<and> (R = 100 \<and> v_in - v_out = 5 \<longrightarrow>
          Resistor_compute R inputs outputs = Inr (outputs(''I'' \<mapsto> 5 / 100)))"
  by (simp add: Resistor_compute_def getitem_Some np_div_def)

theorem Resistor_compute_ohm_witness:
  "Resistor_compute 100 [''V_in'' \<mapsto> 5, ''V_out'' \<mapsto> 0] Map.empty = Inr [''I'' \<mapsto> 5 / 100]"
proof -
  have R: "(0::real) < 100"
    by simp
  have i: "[''V_in'' \<mapsto> 5::real, ''V_out'' \<mapsto> 0] ''V_in'' = Some 5"
    by simp
  have o: "[''V_in'' \<mapsto> 5::real, ''V_out'' \<mapsto> 0] ''V_out'' = Some 0"
    by simp
  have "Resistor_compute 100 [''V_in'' \<mapsto> 5, ''V_out'' \<mapsto> 0] Map.empty
      = Inr [''I'' \<mapsto> (5 - 0) / 100]"
    by (rule conjunct1 [OF Resistor_compute_ohm [OF R i o]])
  also have "\<dots> = Inr [''I'' \<mapsto> 5 / 100]"
    by simp
  finally show ?thesis .
qed

text \<open>
  Claim C6. For \<open>R > 0\<close> the partials declared by \<^verbatim>\<open>Resistor.setup\<close> of
  \<^verbatim>\<open>circuitBat.py\<close> are the constants \<open>1 / R\<close> (with respect to \<^verbatim>\<open>V_in\<close>) and
  \<open>- 1 / R\<close> (with respect to \<^verbatim>\<open>V_out\<close>), and they are the derivatives of the current
  computed by \<^verbatim>\<open>Resistor.compute\<close> at every pair of terminal voltages.
\<close>

theorem Resistor_partials_exact:
  "0 < R \<Longrightarrow> inputs ''V_in'' = Some v_in \<Longrightarrow> inputs ''V_out'' = Some v_out \<Longrightarrow>
     circuitBat_Resistor_setup R =
       Inr \<lparr>m_inputs = [''V_in'', ''V_out''], m_outputs = [''I''],
            m_partials = [((''I'', ''V_in''), val (1 / R)), ((''I'', ''V_out''), val (- 1 / R))]\<rparr>
   \<and> ((\<lambda>v. current_of (Resistor_compute R (inputs(''V_in'' \<mapsto> v)) outputs))
          has_real_derivative 1 / R) (at v_in)
   \<and> ((\<lambda>v. current_of (Resistor_compute R (inputs(''V_out'' \<mapsto> v)) outputs))
          has_real_derivative - 1 / R) (at v_out)"
proof (intro conjI)
  assume R: "0 < R" and i: "inputs ''V_in'' = Some v_in" and o: "inputs ''V_out'' = Some v_out"
  show "circuitBat_Resistor_setup R =
       Inr \<lparr>m_inputs = [''V_in'', ''V_out''], m_outputs = [''I''],
            m_partials = [((''I'', ''V_in''), val (1 / R)), ((''I'', ''V_out''), val (- 1 / R))]\<rparr>"
    using R by (simp add: circuitBat_Resistor_setup_def py_div_def)
  have "(\<lambda>v. current_of (Resistor_compute R (inputs(''V_in'' \<mapsto> v)) outputs))
          = (\<lambda>v. (v - v_out) / R)"
    using R o by (simp add: Resistor_current fun_eq_iff)
  then show "((\<lambda>v. current_of (Resistor_compute R (inputs(''V_in'' \<mapsto> v)) outputs))
          has_real_derivative 1 / R) (at v_in)"
    using R by (auto intro!: derivative_eq_intros)
  have "(\<lambda>v. current_of (Resistor_compute R (inputs(''V_out'' \<mapsto> v)) outputs))
          = (\<lambda>v. (v_in - v) / R)"
    using R i by (simp add: Resistor_current fun_eq_iff)
  then show "((\<lambda>v. current_of (Resistor_compute R (inputs(''V_out'' \<mapsto> v)) outputs))
          has_real_derivative - 1 / R) (at v_out)"
    using R by (auto intro!: derivative_eq_intros)
qed

theorem Resistor_partials_exact_witness:
  "circuitBat_Resistor_setup 100 =
       Inr \<lparr>m_inputs = [''V_in'', ''V_out''], m_outputs = [''I''],
            m_partials = [((''I'', ''V_in''), val (1 / 100)), ((''I'', ''V_out''), val (- 1 / 100))]\<rparr>
   \<and> ((\<lambda>v. current_of (Resistor_compute 100 ([''V_in'' \<mapsto> 5, ''V_out'' \<mapsto> 0](''V_in'' \<mapsto> v)) Map.empty))
          has_real_derivative 1 / 100) (at 5)
   \<and> ((\<lambda>v. current_of (Resistor_compute 100 ([''V_in'' \<mapsto> 5, ''V_out'' \<mapsto> 0](''V_out'' \<mapsto> v)) Map.empty))
          has_real_derivative - 1 / 100) (at 0)"
proof -
  have R: "(0::real) < 100"
    by simp
  have i: "[''V_in'' \<mapsto> 5::real, ''V_out'' \<mapsto> 0] ''V_in'' = Some 5"
    by simp
  have o: "[''V_in'' \<mapsto> 5::real, ''V_out'' \<mapsto> 0] ''V_out'' = Some 0"
    by simp
  show ?thesis
    by (rule Resistor_partials_exact [OF R i o])
qed

section \<open>Diode\<close>

lemma circuitBat_Diode_compute_shockley:
  "Vt \<noteq> 0 \<Longrightarrow> inputs ''V_in'' = Some v_in \<Longrightarrow> inputs ''V_out'' = Some v_out \<Longrightarrow>
     Diode_compute circuitBat_globals Is Vt inputs outputs
       = Inr (outputs(''I'' \<mapsto> Is * (exp ((v_in - v_out) / Vt) - 1)))"
  by (simp add: Diode_compute_def getitem_Some np_bound_in_circuitBat np_div_def)

lemma circuitBat_Diode_compute_zero:
  "Vt \<noteq> 0 \<Longrightarrow> inputs ''V_in'' = Some v \<Longrightarrow> inputs ''V_out'' = Some v \<Longrightarrow>
     Diode_compute circuitBat_globals Is Vt inputs outputs = Inr (outputs(''I'' \<mapsto> 0))"
  by (simp add: circuitBat_Diode_compute_shockley)

lemma circuitBat_Diode_current:
  "Vt \<noteq> 0 \<Longrightarrow> inputs ''V_in'' = Some v_in \<Longrightarrow> inputs ''V_out'' = Some v_out \<Longrightarrow>
     current_of (Diode_compute circuitBat_globals Is Vt inputs outputs)
       = Is * (exp ((v_in - v_out) / Vt) - 1)"
  by (simp add: circuitBat_Diode_compute_shockley current_of_def)

text \<open>
  Claim C3 says that \<^verbatim>\<open>Diode.compute\<close> returns \<open>Is * (exp ((v_in - v_out) / Vt) - 1)\<close>,
  and 0 when the two voltages are equal. The method of \<^verbatim>\<open>circuitBat.py\<close> does (the
  two lemmas above). The method of \<^verbatim>\<open>circuit.py\<close>, run with the default options at
  equal voltages, raises \<^verbatim>\<open>NameError\<close> instead of writing the current 0.
\<close>

theorem circuit_Diode_compute_at_zero:
  "Diode_compute circuit_globals Diode_default_Is Diode_default_Vt
     [''V_in'' \<mapsto> 0, ''V_out'' \<mapsto> 0] Map.empty = Inl (NameError ''np'')"
  by (simp add: Diode_compute_def getitem_def np_unbound_in_circuit)

text \<open>
  Claim C9. In \<^verbatim>\<open>circuit.py\<close> no evaluation of \<^verbatim>\<open>Diode.compute\<close> succeeds, whatever
  the options and the inputs; when the two voltages are there, the failure is the
  \<^verbatim>\<open>NameError\<close> on \<^verbatim>\<open>np\<close>.
\<close>

theorem circuit_Diode_compute_NameError:
  "isl (Diode_compute circuit_globals Is Vt inputs outputs)
   \<and> (inputs ''V_in'' = Some v_in \<and> inputs ''V_out'' = Some v_out \<longrightarrow>
        Diode_compute circuit_globals Is Vt inputs outputs = Inl (NameError ''np''))"
  by (simp add: Diode_compute_def getitem_def np_unbound_in_circuit split: option.splits)

theorem circuit_Diode_compute_NameError_witness:
  "isl (Diode_compute circuit_globals Diode_default_Is Diode_default_Vt
          [''V_in'' \<mapsto> 7 / 10, ''V_out'' \<mapsto> 0] Map.empty)
   \<and> Diode_compute circuit_globals Diode_default_Is Diode_default_Vt
          [''V_in'' \<mapsto> 7 / 10, ''V_out'' \<mapsto> 0] Map.empty = Inl (NameError ''np'')"
  using circuit_Diode_compute_NameError [of Diode_default_Is Diode_default_Vt
      "[''V_in'' \<mapsto> 7 / 10, ''V_out'' \<mapsto> 0]" Map.empty "7 / 10" 0]
  by simp

text \<open>
  Claim C7. With \<open>I = Is * exp ((v_in - v_out) / Vt)\<close>, \<^verbatim>\<open>Diode.compute_partials\<close>
  writes \<open>I / Vt\<close> for \<^verbatim>\<open>V_in\<close> and its negation for \<^verbatim>\<open>V_out\<close>, and these are the
  derivatives of the current computed by \<^verbatim>\<open>Diode.compute\<close>.
\<close>

theorem Diode_compute_partials_exact:
  "Vt \<noteq> 0 \<Longrightarrow> inputs ''V_in'' = Some v_in \<Longrightarrow> inputs ''V_out'' = Some v_out \<Longrightarrow>
     I = Is * exp ((v_in - v_out) / Vt) \<Longrightarrow>
     Diode_compute_partials circuitBat_globals Is Vt inputs J =
       Inr (J((''I'', ''V_in'') \<mapsto> I / Vt, (''I'', ''V_out'') \<mapsto> - (I / Vt)))
   \<and> ((\<lambda>v. current_of (Diode_compute circuitBat_globals Is Vt (inputs(''V_in'' \<mapsto> v)) outputs))
          has_real_derivative I / Vt) (at v_in)
   \<and> ((\<lambda>v. current_of (Diode_compute circuitBat_globals Is Vt (inputs(''V_out'' \<mapsto> v)) outputs))
          has_real_derivative - (I / Vt)) (at v_out)"
proof (intro conjI)
  assume Vt: "Vt \<noteq> 0" and i: "inputs ''V_in'' = Some v_in" and o: "inputs ''V_out'' = Some v_out"
    and I: "I = Is * exp ((v_in - v_out) / Vt)"
  show "Diode_compute_partials circuitBat_globals Is Vt inputs J =
       Inr (J((''I'', ''V_in'') \<mapsto> I / Vt, (''I'', ''V_out'') \<mapsto> - (I / Vt)))"
    using Vt i o I
    by (simp add: Diode_compute_partials_def getitem_Some np_bound_in_circuitBat np_div_def
          Let_def)
  have "(\<lambda>v. current_of (Diode_compute circuitBat_globals Is Vt (inputs(''V_in'' \<mapsto> v)) outputs))
          = (\<lambda>v. Is * (exp ((v - v_out) / Vt) - 1))"
    using Vt o by (simp add: circuitBat_Diode_current fun_eq_iff)
  then show "((\<lambda>v. current_of (Diode_compute circuitBat_globals Is Vt (inputs(''V_in'' \<mapsto> v)) outputs))
          has_real_derivative I / Vt) (at v_in)"
    using Vt I by (auto intro!: derivative_eq_intros)
  have "(\<lambda>v. current_of (Diode_compute circuitBat_globals Is Vt (inputs(''V_out'' \<mapsto> v)) outputs))
          = (\<lambda>v. Is * (exp ((v_in - v) / Vt) - 1))"
    using Vt i by (simp add: circuitBat_Diode_current fun_eq_iff)
  then show "((\<lambda>v. current_of (Diode_compute circuitBat_globals Is Vt (inputs(''V_out'' \<mapsto> v)) outputs))
          has_real_derivative - (I / Vt)) (at v_out)"
    using Vt I by (auto intro!: derivative_eq_intros)
qed

theorem Diode_compute_partials_exact_witness:
  "Diode_compute_partials circuitBat_globals 2 1 [''V_in'' \<mapsto> 0, ''V_out'' \<mapsto> 0] Map.empty =
       Inr [(''I'', ''V_in'') \<mapsto> 2 / 1, (''I'', ''V_out'') \<mapsto> - (2 / 1)]
   \<and> ((\<lambda>v. current_of (Diode_compute circuitBat_globals 2 1
               ([''V_in'' \<mapsto> 0, ''V_out'' \<mapsto> 0](''V_in'' \<mapsto> v)) Map.empty))
          has_real_derivative 2 / 1) (at 0)
   \<and> ((\<lambda>v. current_of (Diode_compute circuitBat_globals 2 1
               ([''V_in'' \<mapsto> 0, ''V_out'' \<mapsto> 0](''V_out'' \<mapsto> v)) Map.empty))
          has_real_derivative - (2 / 1)) (at 0)"
proof -
  have Vt: "(1::real) \<noteq> 0"
    by simp
  have i: "[''V_in'' \<mapsto> 0::real, ''V_out'' \<mapsto> 0] ''V_in'' = Some 0"
    by simp
  have o: "[''V_in'' \<mapsto> 0::real, ''V_out'' \<mapsto> 0] ''V_out'' = Some 0"
    by simp
  have I: "(2::real) = 2 * exp ((0 - 0) / 1)"
    by simp
  show ?thesis
    by (rule Diode_compute_partials_exact [OF Vt i o I])
qed

section \<open>Node\<close>

lemma add_sub_currents_zero:
  "\<forall>i \<in> set is. inputs (prefix @ str_nat i) = Some 0 \<Longrightarrow>
     add_currents inputs prefix is r = sub_currents inputs prefix is r"
  by (induction "is" arbitrary: r) (simp_all add: getitem_Some)

lemma add_currents_sum:
  "\<forall>i \<in> set is. inputs (prefix @ str_nat i) = Some (f i) \<Longrightarrow>
     add_currents inputs prefix is r = Inr (r + sum_list (map f is))"
  by (induction "is" arbitrary: r) (simp_all add: getitem_Some)

lemma sub_currents_sum:
  "\<forall>i \<in> set is. inputs (prefix @ str_nat i) = Some (f i) \<Longrightarrow>
     sub_currents inputs prefix is r = Inr (r - sum_list (map f is))"
  by (induction "is" arbitrary: r) (simp_all add: getitem_Some)

text \<open>
  With every declared current there, the residual of \<^verbatim>\<open>circuit.py\<close> is the sum of the
  incoming currents plus the sum of the outgoing ones; the residual of
  \<^verbatim>\<open>circuitBat.py\<close> is the first sum minus the second.
\<close>

lemma circuit_Node_residual:
  assumes ins: "\<forall>i \<in> set (py_range n_in). inputs (''I_in:'' @ str_nat i) = Some (f_in i)"
    and outs: "\<forall>i \<in> set (py_range n_out). inputs (''I_out:'' @ str_nat i) = Some (f_out i)"
  shows "circuit_Node_apply_nonlinear n_in n_out inputs outputs residuals =
       Inr (residuals(''V'' \<mapsto>
         sum_list (map f_in (py_range n_in)) + sum_list (map f_out (py_range n_out))))"
  unfolding circuit_Node_apply_nonlinear_def add_currents_sum [OF ins] bind_err_Inr
    add_currents_sum [OF outs]
  by simp

lemma circuitBat_Node_residual:
  assumes ins: "\<forall>i \<in> set (py_range n_in). inputs (''I_in:'' @ str_nat i) = Some (f_in i)"
    and outs: "\<forall>i \<in> set (py_range n_out). inputs (''I_out:'' @ str_nat i) = Some (f_out i)"
  shows "circuitBat_Node_apply_nonlinear n_in n_out inputs outputs residuals =
       Inr (residuals(''V'' \<mapsto>
         sum_list (map f_in (py_range n_in)) - sum_list (map f_out (py_range n_out))))"
  unfolding circuitBat_Node_apply_nonlinear_def add_currents_sum [OF ins] bind_err_Inr
    sub_currents_sum [OF outs]
  by simp

lemma Node_apply_nonlinear_example:
  "circuit_Node_apply_nonlinear 1 1 [''I_in:0'' \<mapsto> 0, ''I_out:0'' \<mapsto> 1] outputs Map.empty
     = Inr [''V'' \<mapsto> 1]"
  "circuitBat_Node_apply_nonlinear 1 1 [''I_in:0'' \<mapsto> 0, ''I_out:0'' \<mapsto> 1] outputs Map.empty
     = Inr [''V'' \<mapsto> - 1]"
  by (simp_all add: circuit_Node_apply_nonlinear_def circuitBat_Node_apply_nonlinear_def
        py_range_simps str_nat_digits getitem_def)

text \<open>
  Claim C1. The two \<^verbatim>\<open>Node.apply_nonlinear\<close> are not equivalent: with one incoming
  current 0 and one outgoing current 1, \<^verbatim>\<open>circuit.py\<close> gives the residual 1 and
  \<^verbatim>\<open>circuitBat.py\<close> the residual -1. They agree whenever every outgoing current is 0.
\<close>

theorem Node_apply_nonlinear_not_equivalent:
  "circuit_Node_apply_nonlinear 1 1 [''I_in:0'' \<mapsto> 0, ''I_out:0'' \<mapsto> 1] Map.empty Map.empty
     = Inr [''V'' \<mapsto> 1]
   \<and> circuitBat_Node_apply_nonlinear 1 1 [''I_in:0'' \<mapsto> 0, ''I_out:0'' \<mapsto> 1] Map.empty Map.empty
     = Inr [''V'' \<mapsto> - 1]
   \<and> circuit_Node_apply_nonlinear 1 1 [''I_in:0'' \<mapsto> 0, ''I_out:0'' \<mapsto> 1] Map.empty Map.empty
     \<noteq> circuitBat_Node_apply_nonlinear 1 1 [''I_in:0'' \<mapsto> 0, ''I_out:0'' \<mapsto> 1] Map.empty Map.empty
   \<and> (\<forall>n_in n_out inputs outputs residuals.
       (\<forall>i \<in> set (py_range n_out). inputs (''I_out:'' @ str_nat i) = Some 0) \<longrightarrow>
       circuit_Node_apply_nonlinear n_in n_out inputs outputs residuals
         = circuitBat_Node_apply_nonlinear n_in n_out inputs outputs residuals)"
proof (intro conjI allI impI)
  show "circuit_Node_apply_nonlinear 1 1 [''I_in:0'' \<mapsto> 0, ''I_out:0'' \<mapsto> 1] Map.empty Map.empty
     \<noteq> circuitBat_Node_apply_nonlinear 1 1 [''I_in:0'' \<mapsto> 0, ''I_out:0'' \<mapsto> 1] Map.empty Map.empty"
    unfolding Node_apply_nonlinear_example by (simp add: fun_eq_iff)
next
  fix n_in n_out :: int and inputs outputs residuals :: vec
  assume "\<forall>i \<in> set (py_range n_out). inputs (''I_out:'' @ str_nat i) = Some 0"
  then show "circuit_Node_apply_nonlinear n_in n_out inputs outputs residuals
         = circuitBat_Node_apply_nonlinear n_in n_out inputs outputs residuals"
    by (simp add: circuit_Node_apply_nonlinear_def circuitBat_Node_apply_nonlinear_def
          add_sub_currents_zero)
qed (simp_all add: Node_apply_nonlinear_example)

theorem Node_apply_nonlinear_not_equivalent_witness:
  "circuit_Node_apply_nonlinear 1 2 [''I_in:0'' \<mapsto> 3, ''I_out:0'' \<mapsto> 0, ''I_out:1'' \<mapsto> 0]
       Map.empty Map.empty
     = circuitBat_Node_apply_nonlinear 1 2 [''I_in:0'' \<mapsto> 3, ''I_out:0'' \<mapsto> 0, ''I_out:1'' \<mapsto> 0]
       Map.empty Map.empty"
proof -
  have "\<forall>i \<in> set (py_range 2).
      [''I_in:0'' \<mapsto> 3::real, ''I_out:0'' \<mapsto> 0, ''I_out:1'' \<mapsto> 0] (''I_out:'' @ str_nat i) = Some 0"
    by (simp add: py_range_simps str_nat_digits)
  with Node_apply_nonlinear_not_equivalent show ?thesis
    by blast
qed

text \<open>
  Claim C10. The residual does not depend on the node's own state: in either file,
  \<^verbatim>\<open>Node.apply_nonlinear\<close> gives the same result for any two \<^verbatim>\<open>outputs\<close> vectors.
\<close>

theorem Node_residual_independent_of_V:
  "circuit_Node_apply_nonlinear n_in n_out inputs outputs residuals
     = circuit_Node_apply_nonlinear n_in n_out inputs outputs' residuals
   \<and> circuitBat_Node_apply_nonlinear n_in n_out inputs outputs residuals
     = circuitBat_Node_apply_nonlinear n_in n_out inputs outputs' residuals"
  by (simp add: circuit_Node_apply_nonlinear_def circuitBat_Node_apply_nonlinear_def)

section \<open>The wiring of the two models\<close>

lemma Circuit_setup_eq: "Circuit_setup = Group
  [Subsystem ''n1'' (Node 1 2) [(''I_in:0'', ''I_in'')],
   Subsystem ''n2'' (Node 1 1) [],
   Subsystem ''R1'' (Resistor 100) [(''V_out'', ''Vg'')],
   Subsystem ''R2'' (Resistor 10000) [],
   Subsystem ''D1'' (Diode Diode_default_Is Diode_default_Vt) [(''V_out'', ''Vg'')]]
  [(''n1.V'', ''R1.V_in''), (''n1.V'', ''R2.V_in''), (''R1.I'', ''n1.I_out:0''),
   (''R2.I'', ''n1.I_out:1''), (''n2.V'', ''R2.V_out''), (''n2.V'', ''D1.V_in''),
   (''R2.I'', ''n2.I_in:0''), (''D1.I'', ''n2.I_out:0'')]"
  by (simp add: Circuit_setup_def statements_def empty_group_def)

lemma circuit_model_eq: "circuit_model = Group
  [Subsystem ''ground'' (IndepVarComp ''V'' 0) [],
   Subsystem ''source'' (IndepVarComp ''I'' (1 / 10)) [],
   Subsystem ''circuit'' Circuit_setup []]
  [(''source.I'', ''circuit.I_in''), (''ground.V'', ''circuit.Vg'')]"
  by (simp add: circuit_model_def statements_def empty_group_def)

lemma circuitBat_model_eq: "circuitBat_model = Group
  [Subsystem ''ground'' (IndepVarComp ''V'' 0) [],
   Subsystem ''batt'' (IndepVarComp ''V'' (15 / 10)) [],
   Subsystem ''batt_balance'' (BalanceComp [''I'']) [],
   Subsystem ''circuit'' Circuit_setup [],
   Subsystem ''batt_deltaV'' (ExecComp ''dV'' (Sub (Var ''V1'') (Var ''V2''))) []]
  [(''batt_balance.I'', ''circuit.I_in''), (''ground.V'', ''circuit.Vg''),
   (''ground.V'', ''batt_deltaV.V2''), (''circuit.n1.V'', ''batt_deltaV.V1''),
   (''batt.V'', ''batt_balance.rhs:I''), (''batt_deltaV.dV'', ''batt_balance.lhs:I'')]"
  by (simp add: circuitBat_model_def statements_def empty_group_def)

lemma Circuit_inputs: "var_inputs Circuit_setup =
  [(''I_in'', ''n1.I_in:0''), (''n1.I_out:0'', ''n1.I_out:0''),
  (''n1.I_out:1'', ''n1.I_out:1''), (''n2.I_in:0'', ''n2.I_in:0''),
  (''n2.I_out:0'', ''n2.I_out:0''), (''R1.V_in'', ''R1.V_in''),
  (''Vg'', ''R1.V_out''), (''R2.V_in'', ''R2.V_in''),
  (''R2.V_out'', ''R2.V_out''), (''D1.V_in'', ''D1.V_in''),
  (''Vg'', ''D1.V_out'')]"
  by (simp add: Circuit_setup_eq py_range_simps str_nat_digits promoted_def)

lemma Circuit_outputs: "var_outputs Circuit_setup =
  [(''n1.V'', ''n1.V''), (''n2.V'', ''n2.V''), (''R1.I'', ''R1.I''), (''R2.I'', ''R2.I''), (''D1.I'', ''D1.I'')]"
  by (simp add: Circuit_setup_eq)

lemma Circuit_connections: "flat_connections Circuit_setup =
  [(''n1.V'', ''R1.V_in''), (''n1.V'', ''R2.V_in''), (''R1.I'', ''n1.I_out:0''),
   (''R2.I'', ''n1.I_out:1''), (''n2.V'', ''R2.V_out''), (''n2.V'', ''D1.V_in''),
   (''R2.I'', ''n2.I_in:0''), (''D1.I'', ''n2.I_out:0'')]"
  by (simp add: Circuit_setup_eq py_range_simps str_nat_digits promoted_def resolve_def)

lemma circuit_connections: "flat_connections circuit_model =
 [(''source.I'', ''circuit.n1.I_in:0''),
  (''ground.V'', ''circuit.R1.V_out''),
  (''ground.V'', ''circuit.D1.V_out''),
  (''circuit.n1.V'', ''circuit.R1.V_in''),
  (''circuit.n1.V'', ''circuit.R2.V_in''),
  (''circuit.R1.I'', ''circuit.n1.I_out:0''),
  (''circuit.R2.I'', ''circuit.n1.I_out:1''),
  (''circuit.n2.V'', ''circuit.R2.V_out''),
  (''circuit.n2.V'', ''circuit.D1.V_in''),
  (''circuit.R2.I'', ''circuit.n2.I_in:0''),
  (''circuit.D1.I'', ''circuit.n2.I_out:0'')]"
  by (simp add: circuit_model_eq Circuit_inputs Circuit_outputs Circuit_connections promoted_def resolve_def)

lemma circuitBat_connections: "flat_connections circuitBat_model =
 [(''batt_balance.I'', ''circuit.n1.I_in:0''),
  (''ground.V'', ''circuit.R1.V_out''),
  (''ground.V'', ''circuit.D1.V_out''), (''ground.V'', ''batt_deltaV.V2''),
  (''circuit.n1.V'', ''batt_deltaV.V1''),
  (''batt.V'', ''batt_balance.rhs:I''),
  (''batt_deltaV.dV'', ''batt_balance.lhs:I''),
  (''circuit.n1.V'', ''circuit.R1.V_in''),
  (''circuit.n1.V'', ''circuit.R2.V_in''),
  (''circuit.R1.I'', ''circuit.n1.I_out:0''),
  (''circuit.R2.I'', ''circuit.n1.I_out:1''),
  (''circuit.n2.V'', ''circuit.R2.V_out''),
  (''circuit.n2.V'', ''circuit.D1.V_in''),
  (''circuit.R2.I'', ''circuit.n2.I_in:0''),
  (''circuit.D1.I'', ''circuit.n2.I_out:0'')]"
  by (simp add: circuitBat_model_eq Circuit_inputs Circuit_outputs Circuit_connections promoted_def resolve_def)

lemma circuit_sources:
  "source_of circuit_model ''circuit.R1.V_in'' = Some ''circuit.n1.V''"
  "source_of circuit_model ''circuit.R2.V_in'' = Some ''circuit.n1.V''"
  "source_of circuit_model ''circuit.R2.V_out'' = Some ''circuit.n2.V''"
  "source_of circuit_model ''circuit.R1.V_out'' = Some ''ground.V''"
  "source_of circuit_model ''circuit.D1.V_out'' = Some ''ground.V''"
  "source_of circuit_model ''circuit.D1.V_in'' = Some ''circuit.n2.V''"
  "source_of circuit_model ''circuit.n1.I_in:0'' = Some ''source.I''"
  "source_of circuit_model ''circuit.n1.I_out:0'' = Some ''circuit.R1.I''"
  "source_of circuit_model ''circuit.n1.I_out:1'' = Some ''circuit.R2.I''"
  "source_of circuit_model ''circuit.n2.I_in:0'' = Some ''circuit.R2.I''"
  "source_of circuit_model ''circuit.n2.I_out:0'' = Some ''circuit.D1.I''"
  by (simp_all add: source_of_def circuit_connections)

lemma circuitBat_sources:
  "source_of circuitBat_model ''circuit.R1.V_in'' = Some ''circuit.n1.V''"
  "source_of circuitBat_model ''circuit.R2.V_in'' = Some ''circuit.n1.V''"
  "source_of circuitBat_model ''circuit.R2.V_out'' = Some ''circuit.n2.V''"
  "source_of circuitBat_model ''circuit.R1.V_out'' = Some ''ground.V''"
  "source_of circuitBat_model ''circuit.D1.V_out'' = Some ''ground.V''"
  "source_of circuitBat_model ''circuit.D1.V_in'' = Some ''circuit.n2.V''"
  "source_of circuitBat_model ''circuit.n1.I_in:0'' = Some ''batt_balance.I''"
  "source_of circuitBat_model ''circuit.n1.I_out:0'' = Some ''circuit.R1.I''"
  "source_of circuitBat_model ''circuit.n1.I_out:1'' = Some ''circuit.R2.I''"
  "source_of circuitBat_model ''batt_deltaV.V1'' = Some ''circuit.n1.V''"
  "source_of circuitBat_model ''batt_deltaV.V2'' = Some ''ground.V''"
  "source_of circuitBat_model ''batt_balance.lhs:I'' = Some ''batt_deltaV.dV''"
  "source_of circuitBat_model ''batt_balance.rhs:I'' = Some ''batt.V''"
  by (simp_all add: source_of_def circuitBat_connections)

lemma circuit_components:
  "component_at circuit_model [''circuit'', ''n1''] = Some (Node 1 2)"
  "component_at circuit_model [''circuit'', ''R1''] = Some (Resistor 100)"
  "component_at circuit_model [''circuit'', ''R2''] = Some (Resistor 10000)"
  by (simp_all add: circuit_model_eq Circuit_setup_eq)

lemma circuitBat_components:
  "component_at circuitBat_model [''circuit'', ''n1''] = Some (Node 1 2)"
  "component_at circuitBat_model [''batt_balance''] = Some (BalanceComp [''I''])"
  by (simp_all add: circuitBat_model_eq Circuit_setup_eq)

text \<open>
  Claim C8 says that both resistors take node 1's voltage as \<^verbatim>\<open>V_in\<close> and node 2's
  voltage as \<^verbatim>\<open>V_out\<close>. For \<^verbatim>\<open>R1\<close> the second half fails: its \<^verbatim>\<open>V_out\<close> is promoted
  as \<^verbatim>\<open>Vg\<close> and driven by the ground, not by node 2.
\<close>

theorem circuit_R1_V_out_not_node2:
  "source_of circuit_model ''circuit.R1.V_out'' = Some ''ground.V''
   \<and> source_of circuit_model ''circuit.R1.V_out'' \<noteq> Some ''circuit.n2.V''"
  by (simp add: circuit_sources)

text \<open>
  Claim C8, amended. In the wiring of \<^verbatim>\<open>circuit.py\<close> the source current enters node 1;
  \<^verbatim>\<open>R1\<close> and \<^verbatim>\<open>R2\<close> both take node 1's voltage as \<^verbatim>\<open>V_in\<close> and their currents are
  node 1's two outgoing ports; \<^verbatim>\<open>R2\<close> ends at node 2, whose incoming port is the
  current of \<^verbatim>\<open>R2\<close> and whose outgoing port is the current of the diode; the name
  \<^verbatim>\<open>Vg\<close> stands for the \<^verbatim>\<open>V_out\<close> of \<^verbatim>\<open>R1\<close> and of the diode, both driven by the
  ground voltage.
\<close>

theorem circuit_wiring:
  "source_of circuit_model ''circuit.n1.I_in:0'' = Some ''source.I''
   \<and> source_of circuit_model ''circuit.R1.V_in'' = Some ''circuit.n1.V''
   \<and> source_of circuit_model ''circuit.R2.V_in'' = Some ''circuit.n1.V''
   \<and> source_of circuit_model ''circuit.n1.I_out:0'' = Some ''circuit.R1.I''
   \<and> source_of circuit_model ''circuit.n1.I_out:1'' = Some ''circuit.R2.I''
   \<and> source_of circuit_model ''circuit.R2.V_out'' = Some ''circuit.n2.V''
   \<and> source_of circuit_model ''circuit.D1.V_in'' = Some ''circuit.n2.V''
   \<and> source_of circuit_model ''circuit.n2.I_in:0'' = Some ''circuit.R2.I''
   \<and> source_of circuit_model ''circuit.n2.I_out:0'' = Some ''circuit.D1.I''
   \<and> resolve (var_inputs Circuit_setup) ''Vg'' = [''R1.V_out'', ''D1.V_out'']
   \<and> source_of circuit_model ''circuit.R1.V_out'' = Some ''ground.V''
   \<and> source_of circuit_model ''circuit.D1.V_out'' = Some ''ground.V''"
  by (simp add: circuit_sources Circuit_inputs resolve_def)

section \<open>Node 1 of the base circuit\<close>

lemma circuit_n1_residual:
  "residual_at Circuit_py res circuit_model [''circuit'', ''n1''] st =
     (case st ''source.I'' of None \<Rightarrow> Inl (KeyError ''I_in:0'') | Some i \<Rightarrow>
      (case st ''circuit.R1.I'' of None \<Rightarrow> Inl (KeyError ''I_out:0'') | Some i1 \<Rightarrow>
      (case st ''circuit.R2.I'' of None \<Rightarrow> Inl (KeyError ''I_out:1'') | Some i2 \<Rightarrow>
         Inr [''V'' \<mapsto> i + i1 + i2])))"
  by (simp add: residual_at_def circuit_components apply_nonlinear_def Node_apply_nonlinear_def
        circuit_Node_apply_nonlinear_def py_range_simps str_nat_digits getitem_def gather_def
        circuit_sources split: option.splits)

lemma circuitBat_n1_residual:
  "residual_at CircuitBat_py res circuitBat_model [''circuit'', ''n1''] st =
     (case st ''batt_balance.I'' of None \<Rightarrow> Inl (KeyError ''I_in:0'') | Some i \<Rightarrow>
      (case st ''circuit.R1.I'' of None \<Rightarrow> Inl (KeyError ''I_out:0'') | Some i1 \<Rightarrow>
      (case st ''circuit.R2.I'' of None \<Rightarrow> Inl (KeyError ''I_out:1'') | Some i2 \<Rightarrow>
         Inr [''V'' \<mapsto> i - i1 - i2])))"
  by (simp add: residual_at_def circuitBat_components apply_nonlinear_def
        Node_apply_nonlinear_def circuitBat_Node_apply_nonlinear_def py_range_simps
        str_nat_digits getitem_def gather_def circuitBat_sources split: option.splits)

lemma circuit_run_R1:
  "run_at Circuit_py circuit_model [''circuit'', ''R1''] st =
     (case st ''circuit.n1.V'' of None \<Rightarrow> Inl (KeyError ''V_in'') | Some v1 \<Rightarrow>
      (case st ''ground.V'' of None \<Rightarrow> Inl (KeyError ''V_out'') | Some g \<Rightarrow>
         Inr (st(''circuit.R1.I'' \<mapsto> (v1 - g) / 100))))"
  by (simp add: run_at_def circuit_components compute_def Resistor_compute_def getitem_def
        gather_def circuit_sources np_div_def own_def split: option.splits)

lemma circuit_run_R2:
  "run_at Circuit_py circuit_model [''circuit'', ''R2''] st =
     (case st ''circuit.n1.V'' of None \<Rightarrow> Inl (KeyError ''V_in'') | Some v1 \<Rightarrow>
      (case st ''circuit.n2.V'' of None \<Rightarrow> Inl (KeyError ''V_out'') | Some v2 \<Rightarrow>
         Inr (st(''circuit.R2.I'' \<mapsto> (v1 - v2) / 10000))))"
  by (simp add: run_at_def circuit_components compute_def Resistor_compute_def getitem_def
        gather_def circuit_sources np_div_def own_def split: option.splits)

text \<open>
  Where node 1's residual vanishes: in \<^verbatim>\<open>circuit.py\<close> the two resistor currents sum
  to minus the source current; with the node of \<^verbatim>\<open>circuitBat.py\<close> they sum to the
  current that enters.
\<close>

lemma circuit_n1_residual_zero:
  "residual_at Circuit_py res circuit_model [''circuit'', ''n1''] st = Inr r \<Longrightarrow>
   r ''V'' = Some 0 \<Longrightarrow> st ''source.I'' = Some (1 / 10) \<Longrightarrow>
     \<exists>i1 i2. st ''circuit.R1.I'' = Some i1 \<and> st ''circuit.R2.I'' = Some i2
        \<and> i1 + i2 = - (1 / 10)"
  by (auto simp add: circuit_n1_residual split: option.splits)

lemma circuitBat_n1_residual_zero:
  "residual_at CircuitBat_py res circuitBat_model [''circuit'', ''n1''] st = Inr r \<Longrightarrow>
   r ''V'' = Some 0 \<Longrightarrow> st ''batt_balance.I'' = Some i \<Longrightarrow>
     \<exists>i1 i2. st ''circuit.R1.I'' = Some i1 \<and> st ''circuit.R2.I'' = Some i2
        \<and> i1 + i2 = i"
  by (auto simp add: circuitBat_n1_residual split: option.splits)

text \<open>
  Claim C4 says that a zero residual at node 1 of \<^verbatim>\<open>circuit.py\<close> means
  \<open>R1.I + R2.I = 0.1\<close>. With source current 0.1, ground 0 and node voltages -5 and 495
  the two resistors compute the currents -0.05 and -0.05, node 1's residual is 0, and
  the currents sum to -0.1.
\<close>

theorem circuit_n1_residual_sign:
  "bind_err
     (run_at Circuit_py circuit_model [''circuit'', ''R1'']
        [''source.I'' \<mapsto> 1 / 10, ''ground.V'' \<mapsto> 0,
         ''circuit.n1.V'' \<mapsto> - 5, ''circuit.n2.V'' \<mapsto> 495])
     (run_at Circuit_py circuit_model [''circuit'', ''R2''])
   = Inr [''source.I'' \<mapsto> 1 / 10, ''ground.V'' \<mapsto> 0,
          ''circuit.n1.V'' \<mapsto> - 5, ''circuit.n2.V'' \<mapsto> 495,
          ''circuit.R1.I'' \<mapsto> - (1 / 20), ''circuit.R2.I'' \<mapsto> - (1 / 20)]
   \<and> residual_at Circuit_py (-) circuit_model [''circuit'', ''n1'']
        [''source.I'' \<mapsto> 1 / 10, ''ground.V'' \<mapsto> 0,
         ''circuit.n1.V'' \<mapsto> - 5, ''circuit.n2.V'' \<mapsto> 495,
         ''circuit.R1.I'' \<mapsto> - (1 / 20), ''circuit.R2.I'' \<mapsto> - (1 / 20)]
       = Inr [''V'' \<mapsto> 0]
   \<and> - (1 / 20) + - (1 / 20) = - (1 / 10 :: real)"
  by (simp add: circuit_run_R1 circuit_run_R2 circuit_n1_residual)

section \<open>The battery balance\<close>

lemma circuitBat_run:
  "run_comp CircuitBat_py circuitBat_model [] circuitBat_model st =
     (case st ''circuit.n1.V'' of None \<Rightarrow> Inl (KeyError ''V_in'') | Some v1 \<Rightarrow>
      (case st ''circuit.n2.V'' of None \<Rightarrow> Inl (KeyError ''V_out'') | Some v2 \<Rightarrow>
         Inr (st(''ground.V'' \<mapsto> 0, ''batt.V'' \<mapsto> 15 / 10,
                 ''circuit.R1.I'' \<mapsto> (v1 - 0) / 100,
                 ''circuit.R2.I'' \<mapsto> (v1 - v2) / 10000,
                 ''circuit.D1.I'' \<mapsto> Diode_default_Is * (exp ((v2 - 0) / Diode_default_Vt) - 1),
                 ''batt_deltaV.dV'' \<mapsto> v1 - 0))))"
  apply (subst (2) circuitBat_model_eq)
  apply (simp add: Circuit_setup_eq compute_def IndepVarComp_compute_def own_def
       Resistor_compute_def Diode_compute_def ExecComp_compute_def getitem_def
        gather_def circuitBat_sources np_div_def globals_of_def np_bound_in_circuitBat
        Diode_default_Vt_nonzero split: option.splits)
  done

lemma circuitBat_balance_residual:
  "residual_at CircuitBat_py res circuitBat_model [''batt_balance''] st =
     (case st ''batt_deltaV.dV'' of None \<Rightarrow> Inl (KeyError ''lhs:I'') | Some lhs \<Rightarrow>
      (case st ''batt.V'' of None \<Rightarrow> Inl (KeyError ''rhs:I'') | Some rhs \<Rightarrow>
         Inr [''I'' \<mapsto> res lhs rhs]))"
  by (simp add: residual_at_def circuitBat_components apply_nonlinear_def getitem_def
        gather_def circuitBat_sources split: option.splits)

text \<open>
  Claim C5. Let the residual law of the balance vanish only where its two sides are
  equal. In every state of \<^verbatim>\<open>circuitBat.py\<close> reached by a pass over the explicit
  components, if the residual of \<^verbatim>\<open>batt_balance\<close> is 0 then node 1's voltage minus the
  ground voltage is 1.5, hence within every tolerance of it.
\<close>

theorem battery_balance:
  assumes law: "\<forall>lhs rhs. res lhs rhs = 0 \<longrightarrow> lhs = rhs"
    and run: "run_comp CircuitBat_py circuitBat_model [] circuitBat_model st0 = Inr st"
    and residual: "residual_at CircuitBat_py res circuitBat_model [''batt_balance''] st = Inr r"
    and zero: "r ''I'' = Some 0"
  shows "\<exists>v1 g. st ''circuit.n1.V'' = Some v1 \<and> st ''ground.V'' = Some g \<and> v1 - g = 15 / 10
        \<and> (\<forall>tol. 0 \<le> tol \<longrightarrow> \<bar>(v1 - g) - 15 / 10\<bar> \<le> tol)"
proof -
  from run obtain v1 where v1: "st ''circuit.n1.V'' = Some v1"
    and g: "st ''ground.V'' = Some 0"
    and batt: "st ''batt.V'' = Some (15 / 10)"
    and dV: "st ''batt_deltaV.dV'' = Some (v1 - 0)"
    by (auto simp add: circuitBat_run split: option.splits)
  from residual have "r = [''I'' \<mapsto> res (v1 - 0) (15 / 10)]"
    by (simp add: circuitBat_balance_residual batt dV)
  with zero have "res (v1 - 0) (15 / 10) = 0"
    by simp
  with law have "v1 - 0 = 15 / 10"
    by blast
  with v1 g show ?thesis
    by simp
qed

theorem battery_balance_witness:
  "\<exists>v1 g. battery_state ''circuit.n1.V'' = Some v1 \<and> battery_state ''ground.V'' = Some g
      \<and> v1 - g = 15 / 10 \<and> (\<forall>tol. 0 \<le> tol \<longrightarrow> \<bar>(v1 - g) - 15 / 10\<bar> \<le> tol)"
proof -
  have law: "\<forall>lhs rhs :: real. lhs - rhs = 0 \<longrightarrow> lhs = rhs"
    by simp
  have run: "run_comp CircuitBat_py circuitBat_model [] circuitBat_model battery_initial_state
      = Inr battery_state"
    by (simp add: circuitBat_run battery_initial_state_def battery_state_def)
  have res: "residual_at CircuitBat_py (-) circuitBat_model [''batt_balance''] battery_state
      = Inr [''I'' \<mapsto> 0]"
    by (simp add: circuitBat_balance_residual battery_state_def)
  have zero: "[''I'' \<mapsto> 0::real] ''I'' = Some 0"
    by simp
  show ?thesis
    by (rule battery_balance [OF law run res zero])
qed

end
